theory Spec2Isabelle
  imports Complex_Main
begin

section \<open>Data model\<close>

text \<open>
  Python floats are modelled as \<^typ>\<open>real\<close>: rounding, infinities and NaN are outside
  the model. Python dictionaries are partial maps. Every exception the code can raise
  is a value of \<open>error\<close>, returned on the left of a sum.
\<close>

type_synonym cell_key = string

datatype error = InvalidCoordinate | ValueError | UpstreamError

text \<open>
  \<open>h3.latlng_to_cell(lat, lon, resolution)\<close> and \<open>h3.cell_to_latlng(cell)\<close> belong to
  the h3 library, not to this repository. They are parameters of every definition that
  calls them. The first may raise, so it returns a sum.
\<close>

type_synonym indexer = "real \<Rightarrow> real \<Rightarrow> nat \<Rightarrow> error + cell_key"

type_synonym centroid = "cell_key \<Rightarrow> real \<times> real"

text \<open>
  One row of \<open>incident_details\<close> as the query of \<open>calculate_h3_safety_scores\<close> loads it.
  \<open>hour\<close> is \<open>pd.to_datetime(time_from, errors='coerce').dt.hour\<close>: \<open>None\<close> stands for the
  NaN of an unparseable time.
\<close>

record incident =
  latitude :: real
  longitude :: real
  severity :: int
  hour :: "nat option"

text \<open>A row of the data frame after the \<open>h3_index\<close> and \<open>time_period\<close> columns are added.\<close>

record row =
  inc :: incident
  h3_index :: cell_key
  time_period :: string

text \<open>
  The dictionaries stored per cell. A day or night cell has the keys of \<open>PeriodEntry\<close>,
  a cell of the overall map those of \<open>OverallEntry\<close>; both have \<open>'safety_score'\<close>.
\<close>

datatype entry =
    PeriodEntry (entry_safety_score: real) (entry_incident_count: nat)
      (entry_avg_severity: real) (entry_max_severity: real) (entry_lat: real) (entry_lon: real)
  | OverallEntry (entry_safety_score: real) (entry_day_score: real) (entry_night_score: real)
      (entry_lat: real) (entry_lon: real)

type_synonym scores = "cell_key \<rightharpoonup> entry"

type_synonym grid = "string \<rightharpoonup> scores"

text \<open>The fields of \<open>H3SafetyProcessor\<close> that the scoring code reads.\<close>

record processor =
  resolution :: nat
  h3_safety_scores :: grid

section \<open>Per-bucket safety score\<close>

text \<open>\<open>SafetyScoreCalculator.calculate_safety_score\<close>, and the same lines inlined in
  \<open>H3SafetyProcessor.calculate_h3_safety_scores\<close> of \<open>src/database\<close>.\<close>

definition calculate_safety_score :: "int \<Rightarrow> real \<Rightarrow> real \<Rightarrow> real" where
  "calculate_safety_score incident_count avg_severity max_severity =
     (let incident_weight = min (real_of_int incident_count / 10) 1;
          severity_weight = avg_severity / 10;
          max_severity_penalty = max_severity / 10;
          raw_score = 100 - (incident_weight * 40 + severity_weight * 35
                             + max_severity_penalty * 25)
      in max 0 (min 100 raw_score))"

text \<open>The specification's \<open>clamp(raw, lo, hi)\<close>.\<close>

definition clamp :: "real \<Rightarrow> real \<Rightarrow> real \<Rightarrow> real" where
  "clamp x lo hi = (if x < lo then lo else if hi < x then hi else x)"

section \<open>Building the grid\<close>

text \<open>The lambda of \<open>preprocess_incident_data\<close> that classifies the hour.\<close>

definition time_period_of :: "nat option \<Rightarrow> string" where
  "time_period_of x =
     (case x of
        Some h \<Rightarrow> if 6 \<le> h \<and> h < 22 then ''day'' else ''night''
      | None \<Rightarrow> ''unknown'')"

text \<open>
  \<open>df.apply(lambda row: latlon_to_h3(...), axis=1)\<close> row by row: an exception of the
  indexer ends the whole run.
\<close>

fun apply_latlon_to_h3 :: "indexer \<Rightarrow> nat \<Rightarrow> incident list \<Rightarrow> error + row list" where
  "apply_latlon_to_h3 ix res [] = Inr []"
| "apply_latlon_to_h3 ix res (i # rest) =
     (case ix (latitude i) (longitude i) res of
        Inl e \<Rightarrow> Inl e
      | Inr c \<Rightarrow>
          (case apply_latlon_to_h3 ix res rest of
             Inl e \<Rightarrow> Inl e
           | Inr rs \<Rightarrow>
               Inr (\<lparr>inc = i, h3_index = c, time_period = time_period_of (hour i)\<rparr> # rs)))"

text \<open>
  \<open>preprocess_incident_data\<close>, and the same lines at the head of
  \<open>calculate_h3_safety_scores\<close> in \<open>src/database\<close>. On a frame with no rows
  \<open>df.apply(..., axis=1)\<close> returns a frame, not a column, and the assignment to
  \<open>df['h3_index']\<close> raises \<open>ValueError\<close>.
\<close>

definition preprocess_incident_data ::
    "indexer \<Rightarrow> nat \<Rightarrow> incident list \<Rightarrow> error + row list" where
  "preprocess_incident_data ix res incidents =
     (if incidents = [] then Inl ValueError else apply_latlon_to_h3 ix res incidents)"

text \<open>The aggregations of \<open>groupby('h3_index').agg\<close>, each over one non-empty group.\<close>

definition agg_mean :: "int list \<Rightarrow> real" where
  "agg_mean xs = real_of_int (sum_list xs) / real (length xs)"

fun agg_max :: "int list \<Rightarrow> int" where
  "agg_max [] = 0"
| "agg_max (x # xs) = fold max xs x"

text \<open>
  \<open>calculate_period_scores\<close>: the entry of cell \<open>k\<close> is built from the rows of the period
  that fall in \<open>k\<close>; a cell with no such row gets no entry. \<open>lat\<close> and \<open>lon\<close> are those of the
  first row of the group.
\<close>

definition calculate_period_scores :: "row list \<Rightarrow> string \<Rightarrow> scores" where
  "calculate_period_scores df tp =
     (\<lambda>k.
        let period_data = filter (\<lambda>r. time_period r = tp) df;
            grp = filter (\<lambda>r. h3_index r = k) period_data
        in case grp of
             [] \<Rightarrow> None
           | r # _ \<Rightarrow>
               let sev = map (\<lambda>r. severity (inc r)) grp;
                   incident_count = length grp;
                   avg_severity = agg_mean sev;
                   max_severity = real_of_int (agg_max sev)
               in Some (PeriodEntry
                    (calculate_safety_score (int incident_count) avg_severity max_severity)
                    incident_count avg_severity max_severity
                    (latitude (inc r)) (longitude (inc r))))"

text \<open>
  The loop over \<open>all_h3_indices\<close>, the union of the day and night keys. A missing day
  score counts as 75, a missing night score as 60. The coordinates come from the day
  entry, else the night entry; a zero latitude or longitude is falsy in Python and is
  replaced by the cell's centre.
\<close>

definition overall_scores :: "centroid \<Rightarrow> scores \<Rightarrow> scores \<Rightarrow> scores" where
  "overall_scores h3_to_latlon day night =
     (\<lambda>k.
        if day k = None \<and> night k = None then None
        else
          let day_score = (case day k of Some d \<Rightarrow> entry_safety_score d | None \<Rightarrow> 75);
              night_score = (case night k of Some n \<Rightarrow> entry_safety_score n | None \<Rightarrow> 60);
              coords = (case day k of Some d \<Rightarrow> Some d | None \<Rightarrow> night k);
              latlon = (case coords of
                          Some c \<Rightarrow>
                            if entry_lat c = 0 \<or> entry_lon c = 0 then h3_to_latlon k
                            else (entry_lat c, entry_lon c)
                        | None \<Rightarrow> h3_to_latlon k)
          in Some (OverallEntry ((day_score + night_score) / 2) day_score night_score
                     (fst latlon) (snd latlon)))"

definition calculate_h3_safety_scores ::
    "indexer \<Rightarrow> centroid \<Rightarrow> nat \<Rightarrow> incident list \<Rightarrow> error + grid" where
  "calculate_h3_safety_scores ix h3_to_latlon res incidents =
     (case preprocess_incident_data ix res incidents of
        Inl e \<Rightarrow> Inl e
      | Inr df \<Rightarrow>
          let day = calculate_period_scores df ''day'';
              night = calculate_period_scores df ''night'';
              overall = overall_scores h3_to_latlon day night
          in Inr [''day'' \<mapsto> day, ''night'' \<mapsto> night, ''overall'' \<mapsto> overall])"

section \<open>Point lookup\<close>

definition latlon_to_h3 :: "indexer \<Rightarrow> processor \<Rightarrow> real \<Rightarrow> real \<Rightarrow> error + cell_key" where
  "latlon_to_h3 ix p lat lon = ix lat lon (resolution p)"

definition default_scores :: "string \<rightharpoonup> real" where
  "default_scores = [''day'' \<mapsto> 75, ''night'' \<mapsto> 60, ''overall'' \<mapsto> 67.5]"

text \<open>\<open>default_scores.get(time_period, 67.5)\<close>.\<close>

definition default_score :: "string \<Rightarrow> real" where
  "default_score tp = (case default_scores tp of Some v \<Rightarrow> v | None \<Rightarrow> 67.5)"

definition get_safety_score_for_location ::
    "indexer \<Rightarrow> processor \<Rightarrow> real \<Rightarrow> real \<Rightarrow> string \<Rightarrow> error + real" where
  "get_safety_score_for_location ix p lat lon tp =
     (case latlon_to_h3 ix p lat lon of
        Inl e \<Rightarrow> Inl e
      | Inr c \<Rightarrow>
          (case h3_safety_scores p tp of
             Some m \<Rightarrow>
               (case m c of
                  Some e \<Rightarrow> Inr (entry_safety_score e)
                | None \<Rightarrow> Inr (default_score tp))
           | None \<Rightarrow> Inr (default_score tp)))"

text \<open>
  The score the grid holds for a cell under a bucket, or the bucket's default: what the
  lookup returns once the point's cell is known.
\<close>

definition cell_score :: "processor \<Rightarrow> string \<Rightarrow> cell_key \<Rightarrow> real" where
  "cell_score p tp c =
     (case h3_safety_scores p tp of
        Some m \<Rightarrow> (case m c of Some e \<Rightarrow> entry_safety_score e | None \<Rightarrow> default_score tp)
      | None \<Rightarrow> default_score tp)"

section \<open>Route scoring\<close>

record breakdown =
  overall_safety :: real
  min_safety :: real
  max_safety :: real
  safety_variance :: real
  h3_count :: nat

text \<open>
  The numpy reductions. \<open>np.min\<close> and \<open>np.max\<close> raise \<open>ValueError\<close> on an empty list;
  \<open>np.var\<close> is \<open>mean(abs(x - x.mean())**2)\<close>, with the default \<open>ddof=0\<close>. The code calls
  them on a non-empty list only.
\<close>

definition np_mean :: "real list \<Rightarrow> real" where
  "np_mean xs = sum_list xs / real (length xs)"

definition np_var :: "real list \<Rightarrow> real" where
  "np_var xs = np_mean (map (\<lambda>x. (x - np_mean xs) ^ 2) xs)"

fun np_min :: "real list \<Rightarrow> error + real" where
  "np_min [] = Inl ValueError"
| "np_min (x # xs) = Inr (fold min xs x)"

fun np_max :: "real list \<Rightarrow> error + real" where
  "np_max [] = Inl ValueError"
| "np_max (x # xs) = Inr (fold max xs x)"

text \<open>
  The loop of \<open>RouteProcessor.calculate_route_safety\<close> (\<open>src/map\<close>) over the coordinates,
  with the two lists it appends to. It has no \<open>try\<close>: an exception of the indexer leaves
  the function.
\<close>

fun route_loop ::
    "indexer \<Rightarrow> processor \<Rightarrow> string \<Rightarrow> (real \<times> real) list \<Rightarrow> cell_key list \<times> real list
     \<Rightarrow> error + cell_key list \<times> real list" where
  "route_loop ix p tp [] acc = Inr acc"
| "route_loop ix p tp ((lat, lon) # rest) (h3_indices, safety_scores) =
     (case latlon_to_h3 ix p lat lon of
        Inl e \<Rightarrow> Inl e
      | Inr c \<Rightarrow>
          if c \<in> set h3_indices then route_loop ix p tp rest (h3_indices, safety_scores)
          else
            (case get_safety_score_for_location ix p lat lon tp of
               Inl e \<Rightarrow> Inl e
             | Inr s \<Rightarrow> route_loop ix p tp rest (h3_indices @ [c], safety_scores @ [s])))"

text \<open>
  The loop of \<open>SafetyCalculator.calculate_route_safety\<close> (\<open>src/Map_backend\<close>): the body
  stands in a \<open>try\<close> whose handler logs and continues, so a point that raises is skipped.
  The cell is appended before the lookup is made.
\<close>

fun route_loop_guarded ::
    "indexer \<Rightarrow> processor \<Rightarrow> string \<Rightarrow> (real \<times> real) list \<Rightarrow> cell_key list \<times> real list
     \<Rightarrow> cell_key list \<times> real list" where
  "route_loop_guarded ix p tp [] acc = acc"
| "route_loop_guarded ix p tp ((lat, lon) # rest) (h3_indices, safety_scores) =
     (case latlon_to_h3 ix p lat lon of
        Inl e \<Rightarrow> route_loop_guarded ix p tp rest (h3_indices, safety_scores)
      | Inr c \<Rightarrow>
          if c \<in> set h3_indices then route_loop_guarded ix p tp rest (h3_indices, safety_scores)
          else
            (case get_safety_score_for_location ix p lat lon tp of
               Inl e \<Rightarrow> route_loop_guarded ix p tp rest (h3_indices @ [c], safety_scores)
             | Inr s \<Rightarrow>
                 route_loop_guarded ix p tp rest (h3_indices @ [c], safety_scores @ [s])))"

text \<open>The part of both functions after the loop.\<close>

definition route_statistics :: "cell_key list \<Rightarrow> real list \<Rightarrow> error + breakdown" where
  "route_statistics h3_indices safety_scores =
     (if safety_scores = [] then
        Inr \<lparr>overall_safety = 67.5, min_safety = 67.5, max_safety = 67.5,
             safety_variance = 0, h3_count = 0\<rparr>
      else
        (case np_min safety_scores of
           Inl e \<Rightarrow> Inl e
         | Inr mn \<Rightarrow>
             (case np_max safety_scores of
                Inl e \<Rightarrow> Inl e
              | Inr mx \<Rightarrow>
                  Inr \<lparr>overall_safety = np_mean safety_scores, min_safety = mn,
                       max_safety = mx, safety_variance = np_var safety_scores,
                       h3_count = length h3_indices\<rparr>)))"

text \<open>\<open>RouteProcessor.calculate_route_safety\<close> of \<open>src/map/route_processer.py\<close>.\<close>

definition calculate_route_safety ::
    "indexer \<Rightarrow> processor \<Rightarrow> (real \<times> real) list \<Rightarrow> string \<Rightarrow> error + breakdown" where
  "calculate_route_safety ix p route_coords tp =
     (case route_loop ix p tp route_coords ([], []) of
        Inl e \<Rightarrow> Inl e
      | Inr (h3_indices, safety_scores) \<Rightarrow> route_statistics h3_indices safety_scores)"

text \<open>\<open>SafetyCalculator.calculate_route_safety\<close> of \<open>src/Map_backend/map/route_processer.py\<close>.\<close>

definition safety_calculator_route_safety ::
    "indexer \<Rightarrow> processor \<Rightarrow> (real \<times> real) list \<Rightarrow> string \<Rightarrow> error + breakdown" where
  "safety_calculator_route_safety ix p route_coords tp =
     (case route_loop_guarded ix p tp route_coords ([], []) of
        (h3_indices, safety_scores) \<Rightarrow> route_statistics h3_indices safety_scores)"

text \<open>
  The specification's view of a route: the cells of the points that the indexer accepts,
  each cell kept at its first occurrence, and the neutral breakdown.
\<close>

fun indexed_cells :: "indexer \<Rightarrow> processor \<Rightarrow> (real \<times> real) list \<Rightarrow> cell_key list" where
  "indexed_cells ix p [] = []"
| "indexed_cells ix p ((lat, lon) # rest) =
     (case latlon_to_h3 ix p lat lon of
        Inl e \<Rightarrow> indexed_cells ix p rest
      | Inr c \<Rightarrow> c # indexed_cells ix p rest)"

fun all_indexed :: "indexer \<Rightarrow> processor \<Rightarrow> (real \<times> real) list \<Rightarrow> bool" where
  "all_indexed ix p [] = True"
| "all_indexed ix p ((lat, lon) # rest) =
     (case latlon_to_h3 ix p lat lon of
        Inl e \<Rightarrow> False
      | Inr c \<Rightarrow> all_indexed ix p rest)"

definition first_occurrences :: "'a list \<Rightarrow> 'a list" where
  "first_occurrences xs = rev (remdups (rev xs))"


text \<open>
  The specification's breakdown of a non-empty list of scores: arithmetic mean, minimum,
  maximum, and the population variance (the squared deviations divided by n).
\<close>

definition spec_breakdown :: "real list \<Rightarrow> nat \<Rightarrow> breakdown" where
  "spec_breakdown ss n =
     \<lparr>overall_safety = sum_list ss / real (length ss),
      min_safety = Min (set ss),
      max_safety = Max (set ss),
      safety_variance =
        (\<Sum>x\<leftarrow>ss. (x - sum_list ss / real (length ss)) ^ 2) / real (length ss),
      h3_count = n\<rparr>"

section \<open>Ranking\<close>

text \<open>
  The dataclass \<open>SafetyRoute\<close>; its generated \<open>==\<close> compares all fields, as equality of
  records does. \<open>route_type\<close> exists in \<open>Map_backend\<close> only. \<open>h3_indices\<close> is
  \<open>list(set(...))\<close>, a duplicate-free list in an order Python does not specify: it is
  modelled as the set of its elements.
\<close>

record safety_route =
  coordinates :: "(real \<times> real) list"
  safety_score :: real
  distance_km :: real
  duration_minutes :: real
  h3_indices :: "cell_key set"
  safety_breakdown :: breakdown
  route_type :: string

text \<open>The dictionary returned: \<open>{"message": m}\<close> or \<open>{"recommended_route": i, "reason": r}\<close>.\<close>

datatype recommendation = Message string | Recommended nat string

text \<open>
  Python's \<open>max(xs, key=f)\<close> and \<open>min(xs, key=f)\<close>: the first element whose key is
  largest (smallest), \<open>ValueError\<close> on an empty list. \<open>xs.index(x)\<close>: the first position
  whose element equals \<open>x\<close>, \<open>ValueError\<close> when there is none.
\<close>

fun py_max :: "('a \<Rightarrow> real) \<Rightarrow> 'a list \<Rightarrow> error + 'a" where
  "py_max key [] = Inl ValueError"
| "py_max key (x # xs) = Inr (fold (\<lambda>y best. if key best < key y then y else best) xs x)"

fun py_min :: "('a \<Rightarrow> real) \<Rightarrow> 'a list \<Rightarrow> error + 'a" where
  "py_min key [] = Inl ValueError"
| "py_min key (x # xs) = Inr (fold (\<lambda>y best. if key y < key best then y else best) xs x)"

fun py_index :: "'a list \<Rightarrow> 'a \<Rightarrow> error + nat" where
  "py_index [] x = Inl ValueError"
| "py_index (y # ys) x =
     (if y = x then Inr 0
      else (case py_index ys x of Inl e \<Rightarrow> Inl e | Inr i \<Rightarrow> Inr (Suc i)))"

text \<open>\<open>RouteProcessor._get_route_recommendation\<close> and
  \<open>RouteFormatter.get_route_recommendation\<close>: the two bodies are the same.\<close>

definition get_route_recommendation :: "safety_route list \<Rightarrow> error + recommendation" where
  "get_route_recommendation routes =
     (if routes = [] then Inr (Message ''No routes available'')
      else
        (case py_max safety_score routes of
           Inl e \<Rightarrow> Inl e
         | Inr best_safety \<Rightarrow>
             (case py_min distance_km routes of
                Inl e \<Rightarrow> Inl e
              | Inr shortest \<Rightarrow>
                  if best_safety = shortest then
                    Inr (Recommended 0 ''Best combination of safety and efficiency'')
                  else if safety_score best_safety - safety_score shortest > 15 then
                    (case py_index routes best_safety of
                       Inl e \<Rightarrow> Inl e
                     | Inr i \<Rightarrow>
                         Inr (Recommended i ''Prioritizing safety over shorter distance''))
                  else
                    (case py_index routes shortest of
                       Inl e \<Rightarrow> Inl e
                     | Inr i \<Rightarrow>
                         Inr (Recommended i ''Good balance of safety and efficiency'')))))"

text \<open>Two scored routes for the examples; only score and distance differ.\<close>

definition route_of :: "real \<Rightarrow> real \<Rightarrow> safety_route" where
  "route_of score km =
     \<lparr>coordinates = [(10, 20), (- 10, 20)], safety_score = score, distance_km = km,
      duration_minutes = 30, h3_indices = {''NE'', ''SE''},
      safety_breakdown =
        \<lparr>overall_safety = score, min_safety = score, max_safety = score,
         safety_variance = 0, h3_count = 2\<rparr>,
      route_type = ''standard''\<rparr>"

text \<open>
  The specification's S and D by position: \<open>i\<close> is the first position of a largest key,
  \<open>j\<close> the first position of a smallest key.
\<close>

definition is_first_max :: "('a \<Rightarrow> real) \<Rightarrow> 'a list \<Rightarrow> nat \<Rightarrow> bool" where
  "is_first_max key xs i \<longleftrightarrow>
     i < length xs \<and> (\<forall>k < length xs. key (xs ! k) \<le> key (xs ! i))
     \<and> (\<forall>k < i. key (xs ! k) < key (xs ! i))"

definition is_first_min :: "('a \<Rightarrow> real) \<Rightarrow> 'a list \<Rightarrow> nat \<Rightarrow> bool" where
  "is_first_min key xs j \<longleftrightarrow>
     j < length xs \<and> (\<forall>k < length xs. key (xs ! j) \<le> key (xs ! k))
     \<and> (\<forall>k < j. key (xs ! j) < key (xs ! k))"

section \<open>Candidate routes from the routing service\<close>

record route_point =
  point_lat :: real
  point_lon :: real

text \<open>
  A candidate route as the code reads it: \<open>route['geometry']['coordinates']\<close>, a list of
  [lon, lat] pairs (\<open>None\<close> when a key is missing), and the distance in metres and
  duration in seconds it takes from the first segment (\<open>src/map\<close>) or from the summary
  (\<open>Map_backend\<close>), \<open>None\<close> when a key on the way is missing.
\<close>

record raw_route =
  geometry_coordinates :: "(real \<times> real) list option"
  raw_distance :: "real option"
  raw_duration :: "real option"

text \<open>
  What the HTTP request to OpenRouteService gives: an exception (\<open>Inl\<close>), or a JSON body
  whose list of routes is \<open>None\<close> when the key \<open>'features'\<close> (\<open>src/map\<close>) or \<open>'routes'\<close>
  (\<open>Map_backend\<close>) is absent. The request is the collaborator; its outcome is a parameter.
\<close>

type_synonym ors_reply = "error + raw_route list option"

text \<open>\<open>not self.ors_api_key\<close>: the key is \<open>None\<close> or the empty string.\<close>

definition key_missing :: "string option \<Rightarrow> bool" where
  "key_missing ors_api_key \<longleftrightarrow> ors_api_key = None \<or> ors_api_key = Some []"

text \<open>
  \<open>RouteProcessor._generate_mock_routes\<close> of \<open>src/map\<close>: the direct route and one detour
  per alternative. \<open>_calculate_distance\<close> is geopy's geodesic distance, a parameter.
\<close>

definition generate_mock_routes ::
    "(route_point \<Rightarrow> route_point \<Rightarrow> real) \<Rightarrow> route_point \<Rightarrow> route_point \<Rightarrow> int
     \<Rightarrow> raw_route list" where
  "generate_mock_routes calculate_distance start_pt end_pt alternatives =
     \<lparr>geometry_coordinates =
        Some [(point_lon start_pt, point_lat start_pt), (point_lon end_pt, point_lat end_pt)],
      raw_distance = Some (calculate_distance start_pt end_pt * 1000),
      raw_duration = Some (calculate_distance start_pt end_pt * 60)\<rparr>
     # map (\<lambda>i.
           let offset = 0.01 * (real i + 1);
               mid_lat = (point_lat start_pt + point_lat end_pt) / 2 + offset;
               mid_lon = (point_lon start_pt + point_lon end_pt) / 2 + offset
           in \<lparr>geometry_coordinates =
                  Some [(point_lon start_pt, point_lat start_pt), (mid_lon, mid_lat),
                        (point_lon end_pt, point_lat end_pt)],
                raw_distance = Some (calculate_distance start_pt end_pt * 1200),
                raw_duration = Some (calculate_distance start_pt end_pt * 70)\<rparr>)
         [0..<nat alternatives]"

text \<open>\<open>RouteProcessor.get_routes_from_ors\<close> of \<open>src/map\<close>: mock routes when there is no key
  and when the request raises (a missing \<open>'features'\<close> key raises \<open>KeyError\<close>).\<close>

definition get_routes_from_ors ::
    "(route_point \<Rightarrow> route_point \<Rightarrow> real) \<Rightarrow> string option \<Rightarrow> ors_reply
     \<Rightarrow> route_point \<Rightarrow> route_point \<Rightarrow> int \<Rightarrow> raw_route list" where
  "get_routes_from_ors calculate_distance ors_api_key reply start_pt end_pt alternatives =
     (if key_missing ors_api_key then
        generate_mock_routes calculate_distance start_pt end_pt alternatives
      else
        (case reply of
           Inl e \<Rightarrow> generate_mock_routes calculate_distance start_pt end_pt alternatives
         | Inr None \<Rightarrow> generate_mock_routes calculate_distance start_pt end_pt alternatives
         | Inr (Some features) \<Rightarrow> features))"

text \<open>
  \<open>RouteAPIClient._cached_ors_routes\<close> and \<open>get_ors_routes\<close> of \<open>Map_backend\<close>: the empty
  list when the request raises, when the body has no \<open>'routes'\<close>, and when there is no key.
  \<open>RouteProcessor._get_routes\<close> passes the list on; its handler is never entered, since
  \<open>get_ors_routes\<close> raises nothing.
\<close>

definition cached_ors_routes :: "ors_reply \<Rightarrow> raw_route list" where
  "cached_ors_routes reply =
     (case reply of
        Inl e \<Rightarrow> []
      | Inr None \<Rightarrow> []
      | Inr (Some converted_routes) \<Rightarrow> converted_routes)"

definition get_ors_routes :: "string option \<Rightarrow> ors_reply \<Rightarrow> raw_route list" where
  "get_ors_routes ors_api_key reply =
     (if key_missing ors_api_key then [] else cached_ors_routes reply)"

definition get_routes :: "string option \<Rightarrow> ors_reply \<Rightarrow> raw_route list" where
  "get_routes ors_api_key reply = get_ors_routes ors_api_key reply"

text \<open>\<open>RouteProcessor._extract_route_data\<close>: [lon, lat] pairs become (lat, lon).\<close>

definition extract_route_data ::
    "raw_route \<Rightarrow> error + (real \<times> real) list \<times> real \<times> real" where
  "extract_route_data route =
     (case geometry_coordinates route of
        None \<Rightarrow> Inl ValueError
      | Some coords \<Rightarrow>
          Inr (map (\<lambda>(lon, lat). (lat, lon)) coords,
               (case raw_distance route of Some d \<Rightarrow> d | None \<Rightarrow> 0) / 1000,
               (case raw_duration route of Some d \<Rightarrow> d | None \<Rightarrow> 0) / 60))"

text \<open>The list comprehension \<open>[latlon_to_h3(lat, lon) for lat, lon in route_coords]\<close>.\<close>

fun cells_of :: "indexer \<Rightarrow> processor \<Rightarrow> (real \<times> real) list \<Rightarrow> error + cell_key list" where
  "cells_of ix p [] = Inr []"
| "cells_of ix p ((lat, lon) # rest) =
     (case latlon_to_h3 ix p lat lon of
        Inl e \<Rightarrow> Inl e
      | Inr c \<Rightarrow> (case cells_of ix p rest of Inl e \<Rightarrow> Inl e | Inr cs \<Rightarrow> Inr (c # cs)))"

text \<open>
  The loop of \<open>RouteProcessor.get_safe_routes\<close> of \<open>Map_backend\<close> over
  \<open>enumerate(raw_routes)\<close>: a route whose processing raises is logged and skipped.
\<close>

fun safe_routes_loop ::
    "indexer \<Rightarrow> processor \<Rightarrow> string \<Rightarrow> nat \<Rightarrow> raw_route list \<Rightarrow> safety_route list" where
  "safe_routes_loop ix p tp i [] = []"
| "safe_routes_loop ix p tp i (route # rest) =
     (case extract_route_data route of
        Inl e \<Rightarrow> safe_routes_loop ix p tp (Suc i) rest
      | Inr (route_coords, km, minutes) \<Rightarrow>
          (case safety_calculator_route_safety ix p route_coords tp of
             Inl e \<Rightarrow> safe_routes_loop ix p tp (Suc i) rest
           | Inr b \<Rightarrow>
               (case cells_of ix p route_coords of
                  Inl e \<Rightarrow> safe_routes_loop ix p tp (Suc i) rest
                | Inr cs \<Rightarrow>
                    \<lparr>coordinates = route_coords, safety_score = overall_safety b,
                     distance_km = km, duration_minutes = minutes, h3_indices = set cs,
                     safety_breakdown = b,
                     route_type = (if i = 0 then ''primary'' else ''alternative'')\<rparr>
                    # safe_routes_loop ix p tp (Suc i) rest)))"

text \<open>
  \<open>get_safe_routes\<close> ends with a stable sort by descending score. The start and end
  points and the number of alternatives only go into the request, whose outcome is
  \<open>reply\<close>.
\<close>

definition get_safe_routes ::
    "indexer \<Rightarrow> processor \<Rightarrow> string option \<Rightarrow> ors_reply \<Rightarrow> string \<Rightarrow> safety_route list" where
  "get_safe_routes ix p ors_api_key reply tp =
     sort_key (\<lambda>r. - safety_score r) (safe_routes_loop ix p tp 0 (get_routes ors_api_key reply))"

text \<open>
  \<open>get_route_with_safety\<close> of \<open>Map_backend\<close>: the routes with their recommendation, or
  the error response with no routes when anything raises. The rounding of the numbers
  for display is left out.
\<close>

datatype api_result = Success "safety_route list" recommendation | Failure error

definition get_route_with_safety ::
    "indexer \<Rightarrow> processor \<Rightarrow> string option \<Rightarrow> ors_reply \<Rightarrow> string \<Rightarrow> api_result" where
  "get_route_with_safety ix p ors_api_key reply tp =
     (let routes = get_safe_routes ix p ors_api_key reply tp
      in case get_route_recommendation routes of
           Inl e \<Rightarrow> Failure e
         | Inr r \<Rightarrow> Success routes r)"

text \<open>A stand-in for the geodesic distance in the examples, and two points.\<close>

definition flat_distance :: "route_point \<Rightarrow> route_point \<Rightarrow> real" where
  "flat_distance a b = \<bar>point_lat a - point_lat b\<bar> + \<bar>point_lon a - point_lon b\<bar>"

definition sample_start :: route_point where
  "sample_start = \<lparr>point_lat = 10, point_lon = 20\<rparr>"

definition sample_end :: route_point where
  "sample_end = \<lparr>point_lat = - 10, point_lon = 20\<rparr>"

text \<open>
  A small indexer for the examples: the four quadrants of the globe as cells, and an
  error outside the coordinate ranges. Its centroid function gives each quadrant's centre.
\<close>

definition quadrant_indexer :: indexer where
  "quadrant_indexer lat lon res =
     (if - 90 \<le> lat \<and> lat \<le> 90 \<and> - 180 \<le> lon \<and> lon \<le> 180
      then Inr ((if 0 \<le> lat then ''N'' else ''S'') @ (if 0 \<le> lon then ''E'' else ''W''))
      else Inl InvalidCoordinate)"

definition quadrant_centroid :: centroid where
  "quadrant_centroid c =
     ((if c = ''NE'' \<or> c = ''NW'' then 45 else - 45),
      (if c = ''NE'' \<or> c = ''SE'' then 90 else - 90))"

text \<open>
  Three incidents for the examples: one by day in the north-east, one by night in the
  south-east, one with an unparseable time. \<open>sample_rows\<close> is the data frame they give and
  \<open>sample_processor\<close> holds the grid built from them.
\<close>

definition sample_incidents :: "incident list" where
  "sample_incidents =
     [\<lparr>latitude = 10, longitude = 20, severity = 5, hour = Some 12\<rparr>,
      \<lparr>latitude = - 10, longitude = 20, severity = 2, hour = Some 23\<rparr>,
      \<lparr>latitude = - 10, longitude = - 20, severity = 9, hour = None\<rparr>]"

definition sample_rows :: "row list" where
  "sample_rows =
     [\<lparr>inc = \<lparr>latitude = 10, longitude = 20, severity = 5, hour = Some 12\<rparr>,
        h3_index = ''NE'', time_period = ''day''\<rparr>,
      \<lparr>inc = \<lparr>latitude = - 10, longitude = 20, severity = 2, hour = Some 23\<rparr>,
        h3_index = ''SE'', time_period = ''night''\<rparr>,
      \<lparr>inc = \<lparr>latitude = - 10, longitude = - 20, severity = 9, hour = None\<rparr>,
        h3_index = ''SW'', time_period = ''unknown''\<rparr>]"

definition sample_processor :: processor where
  "sample_processor =
     \<lparr>resolution = 9,
      h3_safety_scores =
        [''day'' \<mapsto> [''NE'' \<mapsto> PeriodEntry 66 1 5 5 10 20],
         ''night'' \<mapsto> [''SE'' \<mapsto> PeriodEntry 84 1 2 2 (- 10) 20],
         ''overall'' \<mapsto> [''NE'' \<mapsto> OverallEntry 63 66 60 10 20,
                          ''SE'' \<mapsto> OverallEntry 79.5 75 84 (- 10) 20]]\<rparr>"

text \<open>A route of three points: two in the north-east cell, one in the south-east.\<close>

definition sample_route :: "(real \<times> real) list" where
  "sample_route = [(10, 20), (10, 25), (- 10, 20)]"

text \<open>
  The processor as \<open>H3SafetyProcessor.__init__\<close> leaves it (\<open>h3_safety_scores = {}\<close>), and
  as \<open>RouteProcessor.__init__\<close> leaves it when the scores cannot be loaded.
\<close>

definition unloaded_processor :: processor where
  "unloaded_processor = \<lparr>resolution = 9, h3_safety_scores = Map.empty\<rparr>"

definition fallback_processor :: processor where
  "fallback_processor =
     \<lparr>resolution = 9,
      h3_safety_scores =
        [''day'' \<mapsto> Map.empty, ''night'' \<mapsto> Map.empty, ''overall'' \<mapsto> Map.empty]\<rparr>"

section \<open>Theorems\<close>

lemma clamp_max_min: "max 0 (min 100 x) = clamp x 0 100"
  by (simp add: clamp_def max_def min_def)

text \<open>
  C1. For every incident count, average severity and maximum severity (non-negative or
  not), the per-bucket score equals the clamp to [0, 100] of
  100 - (min(count/10, 1) * 40 + (avg/10) * 35 + (max/10) * 25), and so lies in [0, 100]
  however large the severities are.
\<close>

theorem calculate_safety_score_clamped:
  "calculate_safety_score n avg mx =
     clamp (100 - (min (real_of_int n / 10) 1 * 40 + (avg / 10) * 35 + (mx / 10) * 25)) 0 100
   \<and> 0 \<le> calculate_safety_score n avg mx
   \<and> calculate_safety_score n avg mx \<le> 100"
  by (simp add: calculate_safety_score_def clamp_def Let_def max_def min_def)

section \<open>The overall score of a cell\<close>

lemma overall_scores_None:
  "overall_scores c2l day night k = None \<longleftrightarrow> day k = None \<and> night k = None"
  by (simp add: overall_scores_def Let_def)

lemma overall_scores_score:
  assumes "overall_scores c2l day night k = Some e"
  shows "entry_safety_score e =
     ((case day k of Some d \<Rightarrow> entry_safety_score d | None \<Rightarrow> 75)
      + (case night k of Some n \<Rightarrow> entry_safety_score n | None \<Rightarrow> 60)) / 2"
  using assms by (auto simp: overall_scores_def Let_def split: if_splits)

lemma dom_overall_scores: "dom (overall_scores c2l day night) = dom day \<union> dom night"
  by (auto simp: dom_def overall_scores_None)

lemma grid_buckets:
  assumes "calculate_h3_safety_scores ix c2l res incidents = Inr g"
  shows "\<exists>df. preprocess_incident_data ix res incidents = Inr df
     \<and> g = [''day'' \<mapsto> calculate_period_scores df ''day'',
            ''night'' \<mapsto> calculate_period_scores df ''night'',
            ''overall'' \<mapsto> overall_scores c2l (calculate_period_scores df ''day'')
                                (calculate_period_scores df ''night'')]"
  using assms by (auto simp: calculate_h3_safety_scores_def Let_def split: sum.splits)

text \<open>With no incident at all the run ends in the \<open>ValueError\<close> of the preprocessing.\<close>

lemma no_incidents_no_grid: "calculate_h3_safety_scores ix c2l res [] = Inl ValueError"
  by (simp add: calculate_h3_safety_scores_def preprocess_incident_data_def)

text \<open>
  C2. In every grid that \<open>calculate_h3_safety_scores\<close> returns, the keys of the overall
  map are the union of the day and night keys, and the overall score of each such cell is
  the mean of its day and night scores, with 75 for a missing day score and 60 for a
  missing night score. So a cell with day data only has (day + 60) / 2, a cell with night
  data only has (75 + night) / 2, and a cell in neither map has no overall entry.
\<close>

theorem overall_is_mean_of_day_and_night:
  assumes "calculate_h3_safety_scores ix c2l res incidents = Inr g"
  shows "\<exists>day night overall.
     g ''day'' = Some day \<and> g ''night'' = Some night \<and> g ''overall'' = Some overall
     \<and> dom overall = dom day \<union> dom night
     \<and> (\<forall>k e. overall k = Some e \<longrightarrow>
           entry_safety_score e =
             ((case day k of Some d \<Rightarrow> entry_safety_score d | None \<Rightarrow> 75)
              + (case night k of Some n \<Rightarrow> entry_safety_score n | None \<Rightarrow> 60)) / 2)
     \<and> (\<forall>k d. day k = Some d \<and> night k = None \<longrightarrow>
           (\<exists>e. overall k = Some e
                \<and> entry_safety_score e = (entry_safety_score d + 60) / 2))
     \<and> (\<forall>k n. day k = None \<and> night k = Some n \<longrightarrow>
           (\<exists>e. overall k = Some e
                \<and> entry_safety_score e = (75 + entry_safety_score n) / 2))
     \<and> (\<forall>k. day k = None \<and> night k = None \<longrightarrow> overall k = None)"
proof -
  from grid_buckets [OF assms] obtain df where
    g: "g = [''day'' \<mapsto> calculate_period_scores df ''day'',
            ''night'' \<mapsto> calculate_period_scores df ''night'',
            ''overall'' \<mapsto> overall_scores c2l (calculate_period_scores df ''day'')
                                (calculate_period_scores df ''night'')]"
    by blast
  define day where "day = calculate_period_scores df ''day''"
  define night where "night = calculate_period_scores df ''night''"
  define overall where "overall = overall_scores c2l day night"
  have b: "g ''day'' = Some day" "g ''night'' = Some night" "g ''overall'' = Some overall"
    by (simp_all add: g day_def night_def overall_def)
  have m: "entry_safety_score e =
             ((case day k of Some d \<Rightarrow> entry_safety_score d | None \<Rightarrow> 75)
              + (case night k of Some n \<Rightarrow> entry_safety_score n | None \<Rightarrow> 60)) / 2"
    if "overall k = Some e" for k e
    using that unfolding overall_def by (rule overall_scores_score)
  have ex: "\<exists>e. overall k = Some e" if "day k \<noteq> None \<or> night k \<noteq> None" for k
    using that overall_scores_None [of c2l day night k] unfolding overall_def by auto
  have d1: "\<exists>e. overall k = Some e \<and> entry_safety_score e = (entry_safety_score d + 60) / 2"
    if "day k = Some d" "night k = None" for k d
  proof -
    from ex [of k] that obtain e where e: "overall k = Some e" by auto
    from m [OF e] that have "entry_safety_score e = (entry_safety_score d + 60) / 2" by simp
    with e show ?thesis by blast
  qed
  have d2: "\<exists>e. overall k = Some e \<and> entry_safety_score e = (75 + entry_safety_score n) / 2"
    if "day k = None" "night k = Some n" for k n
  proof -
    from ex [of k] that obtain e where e: "overall k = Some e" by auto
    from m [OF e] that have "entry_safety_score e = (75 + entry_safety_score n) / 2" by simp
    with e show ?thesis by blast
  qed
  have d3: "overall k = None" if "day k = None" "night k = None" for k
    using that unfolding overall_def by (simp add: overall_scores_None)
  have dm: "dom overall = dom day \<union> dom night"
    unfolding overall_def by (rule dom_overall_scores)
  from b dm m d1 d2 d3 show ?thesis by blast
qed

lemma sample_df: "preprocess_incident_data quadrant_indexer 9 sample_incidents = Inr sample_rows"
  by (simp add: preprocess_incident_data_def sample_incidents_def sample_rows_def
      quadrant_indexer_def time_period_of_def)

lemma sample_day_NE:
  "calculate_period_scores sample_rows ''day'' ''NE'' = Some (PeriodEntry 66 1 5 5 10 20)"
  by (simp add: sample_rows_def calculate_period_scores_def calculate_safety_score_def
      agg_mean_def Let_def)

lemma sample_period_None:
  "calculate_period_scores sample_rows ''night'' ''NE'' = None"
  "calculate_period_scores sample_rows ''day'' ''NW'' = None"
  "calculate_period_scores sample_rows ''night'' ''NW'' = None"
  by (simp_all add: sample_rows_def calculate_period_scores_def Let_def)

text \<open>
  The sample incidents: the north-east cell has day data only, score 66, and overall
  score (66 + 60) / 2 = 63; the north-west cell has no incident and no overall entry.
\<close>

theorem overall_is_mean_of_day_and_night_witness:
  "\<exists>g day night overall d e.
     calculate_h3_safety_scores quadrant_indexer quadrant_centroid 9 sample_incidents = Inr g
     \<and> g ''day'' = Some day \<and> g ''night'' = Some night \<and> g ''overall'' = Some overall
     \<and> day ''NE'' = Some d \<and> entry_safety_score d = 66 \<and> night ''NE'' = None
     \<and> overall ''NE'' = Some e \<and> entry_safety_score e = 63
     \<and> day ''NW'' = None \<and> night ''NW'' = None \<and> overall ''NW'' = None"
proof -
  define g where
    "g = [''day'' \<mapsto> calculate_period_scores sample_rows ''day'',
          ''night'' \<mapsto> calculate_period_scores sample_rows ''night'',
          ''overall'' \<mapsto> overall_scores quadrant_centroid
                            (calculate_period_scores sample_rows ''day'')
                            (calculate_period_scores sample_rows ''night'')]"
  have ev: "calculate_h3_safety_scores quadrant_indexer quadrant_centroid 9 sample_incidents
            = Inr g"
    by (simp add: calculate_h3_safety_scores_def sample_df g_def Let_def)
  from overall_is_mean_of_day_and_night [OF ev] obtain day night overall where
    b: "g ''day'' = Some day" "g ''night'' = Some night" "g ''overall'' = Some overall"
    and d1: "\<forall>k d. day k = Some d \<and> night k = None \<longrightarrow>
           (\<exists>e. overall k = Some e
                \<and> entry_safety_score e = (entry_safety_score d + 60) / 2)"
    and d3: "\<forall>k. day k = None \<and> night k = None \<longrightarrow> overall k = None"
    by blast
  have day: "day = calculate_period_scores sample_rows ''day''"
    using b(1) by (simp add: g_def)
  have night: "night = calculate_period_scores sample_rows ''night''"
    using b(2) by (simp add: g_def)
  have dNE: "day ''NE'' = Some (PeriodEntry 66 1 5 5 10 20)"
    by (simp add: day sample_day_NE)
  have nNE: "night ''NE'' = None"
    by (simp add: night sample_period_None)
  have dNW: "day ''NW'' = None" and nNW: "night ''NW'' = None"
    by (simp_all add: day night sample_period_None)
  from d1 dNE nNE obtain e where e: "overall ''NE'' = Some e"
      "entry_safety_score e = (entry_safety_score (PeriodEntry 66 1 5 5 10 20) + 60) / 2"
    by blast
  from e(2) have e63: "entry_safety_score e = 63" by simp
  from d3 dNW nNW have oNW: "overall ''NW'' = None" by blast
  have "entry_safety_score (PeriodEntry 66 1 5 5 10 20) = 66" by simp
  with ev b dNE nNE e(1) e63 dNW nNW oNW show ?thesis by blast
qed

section \<open>Point lookup: stored score or default\<close>

lemma score_of_lookup:
  "latlon_to_h3 ix p lat lon = Inr c \<Longrightarrow>
   get_safety_score_for_location ix p lat lon tp = Inr (cell_score p tp c)"
  by (simp add: get_safety_score_for_location_def cell_score_def split: option.splits)

lemma lookup_fails:
  "latlon_to_h3 ix p lat lon = Inl e \<Longrightarrow>
   get_safety_score_for_location ix p lat lon tp = Inl e"
  by (simp add: get_safety_score_for_location_def)

lemma default_score_known:
  "default_score ''day'' = 75" "default_score ''night'' = 60"
  "default_score ''overall'' = 67.5"
  by (simp_all add: default_score_def default_scores_def)

lemma default_score_unknown:
  "tp \<noteq> ''day'' \<Longrightarrow> tp \<noteq> ''night'' \<Longrightarrow> tp \<noteq> ''overall'' \<Longrightarrow> default_score tp = 67.5"
  by (simp add: default_score_def default_scores_def)

lemma sample_cells:
  "latlon_to_h3 quadrant_indexer p 10 20 = Inr ''NE''"
  "latlon_to_h3 quadrant_indexer p 10 25 = Inr ''NE''"
  "latlon_to_h3 quadrant_indexer p (- 10) 20 = Inr ''SE''"
  "latlon_to_h3 quadrant_indexer p 95 20 = Inl InvalidCoordinate"
  by (simp_all add: latlon_to_h3_def quadrant_indexer_def)

text \<open>
  C3. For a point whose cell the indexer returns and a bucket among day, night and
  overall, the lookup returns the score stored for that cell under that bucket when
  there is one, and otherwise the bucket's default: 75 for day, 60 for night, 67.5 for
  overall.
\<close>

theorem lookup_stored_or_default:
  assumes "latlon_to_h3 ix p lat lon = Inr c"
    and "tp \<in> {''day'', ''night'', ''overall''}"
  shows "get_safety_score_for_location ix p lat lon tp =
     Inr (case h3_safety_scores p tp of
            Some m \<Rightarrow>
              (case m c of
                 Some e \<Rightarrow> entry_safety_score e
               | None \<Rightarrow> if tp = ''day'' then 75 else if tp = ''night'' then 60 else 67.5)
          | None \<Rightarrow> if tp = ''day'' then 75 else if tp = ''night'' then 60 else 67.5)"
proof -
  note l = score_of_lookup [OF assms(1)]
  from assms(2) consider "tp = ''day''" | "tp = ''night''" | "tp = ''overall''"
    by auto
  then show ?thesis
    by cases (simp_all add: l cell_score_def default_score_known split: option.splits)
qed

text \<open>
  On the sample grid: the north-east cell has a stored day score, 66, and no night
  entry, so the night lookup there gives 60.
\<close>

theorem lookup_stored_or_default_witness:
  "latlon_to_h3 quadrant_indexer sample_processor 10 20 = Inr ''NE''
   \<and> get_safety_score_for_location quadrant_indexer sample_processor 10 20 ''day'' = Inr 66
   \<and> get_safety_score_for_location quadrant_indexer sample_processor 10 20 ''night'' = Inr 60"
proof -
  have c: "latlon_to_h3 quadrant_indexer sample_processor 10 20 = Inr ''NE''"
    by (rule sample_cells)
  have "get_safety_score_for_location quadrant_indexer sample_processor 10 20 ''day'' = Inr 66"
    using lookup_stored_or_default [OF c, of "''day''"]
    by (simp add: sample_processor_def)
  moreover
  have "get_safety_score_for_location quadrant_indexer sample_processor 10 20 ''night'' = Inr 60"
    using lookup_stored_or_default [OF c, of "''night''"]
    by (simp add: sample_processor_def)
  ultimately show ?thesis using c by simp
qed

section \<open>Point lookup: unknown buckets\<close>

text \<open>
  The claim that the lookup returns 67.5 whenever the grid holds no entry for the
  requested bucket fails for the known buckets: with no day entry the day lookup gives
  75, both on the grid \<open>{}\<close> of a fresh processor and on the empty maps
  \<open>RouteProcessor.__init__\<close> installs when loading fails.
\<close>

theorem lookup_fallback_not_always_67_5:
  "h3_safety_scores unloaded_processor ''day'' = None
   \<and> get_safety_score_for_location quadrant_indexer unloaded_processor 10 20 ''day'' = Inr 75
   \<and> get_safety_score_for_location quadrant_indexer unloaded_processor 10 20 ''day''
       \<noteq> Inr 67.5
   \<and> h3_safety_scores fallback_processor ''day'' \<noteq> None
   \<and> get_safety_score_for_location quadrant_indexer fallback_processor 10 20 ''day'' = Inr 75
   \<and> get_safety_score_for_location quadrant_indexer fallback_processor 10 20 ''day''
       \<noteq> Inr 67.5"
  by (simp add: get_safety_score_for_location_def sample_cells unloaded_processor_def
      fallback_processor_def default_score_known)

text \<open>
  C10, amended. For a point whose cell the indexer returns and a bucket string other
  than day, night and overall, the lookup returns 67.5 whenever the grid has no entry
  for that bucket and cell. A grid built by \<open>calculate_h3_safety_scores\<close> has no bucket
  but the three.
\<close>

theorem lookup_unknown_bucket:
  assumes "latlon_to_h3 ix p lat lon = Inr c"
    and "tp \<notin> {''day'', ''night'', ''overall''}"
    and "h3_safety_scores p tp = None
         \<or> (\<exists>m. h3_safety_scores p tp = Some m \<and> m c = None)"
  shows "get_safety_score_for_location ix p lat lon tp = Inr 67.5"
proof -
  have "default_score tp = 67.5"
    using assms(2) by (simp add: default_score_unknown)
  moreover have "cell_score p tp c = default_score tp"
    using assms(3) by (auto simp: cell_score_def)
  ultimately show ?thesis
    by (simp add: score_of_lookup [OF assms(1)])
qed

theorem lookup_unknown_bucket_witness:
  "latlon_to_h3 quadrant_indexer sample_processor 10 20 = Inr ''NE''
   \<and> ''dusk'' \<notin> {''day'', ''night'', ''overall''}
   \<and> h3_safety_scores sample_processor ''dusk'' = None
   \<and> get_safety_score_for_location quadrant_indexer sample_processor 10 20 ''dusk''
       = Inr 67.5"
proof -
  have c: "latlon_to_h3 quadrant_indexer sample_processor 10 20 = Inr ''NE''"
    by (rule sample_cells)
  have u: "''dusk'' \<notin> {''day'', ''night'', ''overall''}" by simp
  have n: "h3_safety_scores sample_processor ''dusk'' = None"
    by (simp add: sample_processor_def)
  from lookup_unknown_bucket [OF c u] n c u show ?thesis by blast
qed

section \<open>Route scoring\<close>

lemma remdups_append_member:
  "x \<in> set ys \<Longrightarrow> remdups (xs @ x # ys) = remdups (xs @ ys)"
  by (induction xs) auto

lemma first_occurrences_snoc_member:
  "c \<in> set hs \<Longrightarrow> first_occurrences (hs @ c # cs) = first_occurrences (hs @ cs)"
  by (simp add: first_occurrences_def remdups_append_member)

lemma first_occurrences_distinct: "distinct hs \<Longrightarrow> first_occurrences hs = hs"
  by (simp add: first_occurrences_def distinct_remdups_id)

lemma route_loop_guarded_eq:
  "distinct hs \<Longrightarrow>
   route_loop_guarded ix p tp pts (hs, map (cell_score p tp) hs) =
     (first_occurrences (hs @ indexed_cells ix p pts),
      map (cell_score p tp) (first_occurrences (hs @ indexed_cells ix p pts)))"
proof (induction pts arbitrary: hs)
  case Nil
  then show ?case by (simp add: first_occurrences_distinct)
next
  case (Cons pt rest)
  obtain lat lon where pt: "pt = (lat, lon)" by (cases pt)
  show ?case
  proof (cases "latlon_to_h3 ix p lat lon")
    case (Inl e)
    with Cons show ?thesis by (simp add: pt)
  next
    case (Inr c)
    show ?thesis
    proof (cases "c \<in> set hs")
      case True
      with Inr Cons show ?thesis
        by (simp add: pt first_occurrences_snoc_member)
    next
      case False
      with Cons.prems have d: "distinct (hs @ [c])" by simp
      from Cons.IH [OF d] Inr False show ?thesis
        by (simp add: pt score_of_lookup [OF Inr])
    qed
  qed
qed

lemma route_loop_all_indexed:
  "all_indexed ix p pts \<Longrightarrow>
   route_loop ix p tp pts (hs, ss) = Inr (route_loop_guarded ix p tp pts (hs, ss))"
proof (induction pts arbitrary: hs ss)
  case Nil
  then show ?case by simp
next
  case (Cons pt rest)
  obtain lat lon where pt: "pt = (lat, lon)" by (cases pt)
  from Cons.prems obtain c where c: "latlon_to_h3 ix p lat lon = Inr c"
    and r: "all_indexed ix p rest"
    by (auto simp: pt split: sum.splits)
  show ?case
    by (simp add: pt c score_of_lookup [OF c] Cons.IH [OF r])
qed

lemma np_min_Min: "xs \<noteq> [] \<Longrightarrow> np_min xs = Inr (Min (set xs))"
  by (cases xs) (simp_all add: Min.set_eq_fold [symmetric])

lemma np_max_Max: "xs \<noteq> [] \<Longrightarrow> np_max xs = Inr (Max (set xs))"
  by (cases xs) (simp_all add: Max.set_eq_fold [symmetric])

lemma route_statistics_nonempty:
  "ss \<noteq> [] \<Longrightarrow> route_statistics hs ss = Inr (spec_breakdown ss (length hs))"
  by (simp add: route_statistics_def np_min_Min np_max_Max spec_breakdown_def np_mean_def
      np_var_def)


lemma first_occurrences_Nil: "first_occurrences xs = [] \<longleftrightarrow> xs = []"
  by (simp add: first_occurrences_def)

lemma length_first_occurrences: "length (first_occurrences xs) = card (set xs)"
  by (simp add: first_occurrences_def length_remdups_card_conv)

lemma guarded_result:
  "route_loop_guarded ix p tp pts ([], []) =
     (first_occurrences (indexed_cells ix p pts),
      map (cell_score p tp) (first_occurrences (indexed_cells ix p pts)))"
  using route_loop_guarded_eq [of "[]" ix p tp pts] by simp

lemma scored_route_statistics:
  assumes "indexed_cells ix p pts \<noteq> []"
  shows "route_statistics (first_occurrences (indexed_cells ix p pts))
           (map (cell_score p tp) (first_occurrences (indexed_cells ix p pts))) =
         Inr (spec_breakdown
                (map (cell_score p tp) (first_occurrences (indexed_cells ix p pts)))
                (card (set (indexed_cells ix p pts))))"
proof -
  let ?cs = "first_occurrences (indexed_cells ix p pts)"
  have ne: "map (cell_score p tp) ?cs \<noteq> []"
    using assms by (simp add: first_occurrences_Nil)
  show ?thesis
    using route_statistics_nonempty [OF ne, of ?cs] by (simp add: length_first_occurrences)
qed

lemma guarded_breakdown:
  assumes "indexed_cells ix p pts \<noteq> []"
  shows "safety_calculator_route_safety ix p pts tp =
           Inr (spec_breakdown
                  (map (cell_score p tp) (first_occurrences (indexed_cells ix p pts)))
                  (card (set (indexed_cells ix p pts))))"
  by (simp add: safety_calculator_route_safety_def guarded_result
      scored_route_statistics [OF assms])

lemma propagating_breakdown:
  assumes "all_indexed ix p pts" and "indexed_cells ix p pts \<noteq> []"
  shows "calculate_route_safety ix p pts tp =
           Inr (spec_breakdown
                  (map (cell_score p tp) (first_occurrences (indexed_cells ix p pts)))
                  (card (set (indexed_cells ix p pts))))"
  by (simp add: calculate_route_safety_def route_loop_all_indexed [OF assms(1)] guarded_result
      scored_route_statistics [OF assms(2)])

lemma sample_day_scores:
  "cell_score sample_processor ''day'' ''NE'' = 66"
  "cell_score sample_processor ''day'' ''SE'' = 75"
  by (simp_all add: cell_score_def sample_processor_def default_score_known)

lemma sample_route_cells:
  "indexed_cells quadrant_indexer sample_processor sample_route = [''NE'', ''NE'', ''SE'']"
  "all_indexed quadrant_indexer sample_processor sample_route"
  by (simp_all add: sample_route_def sample_cells)

text \<open>
  C6. For a route with at least one point the indexer accepts, the breakdown returned by
  the \<open>Map_backend\<close> scorer has the arithmetic mean, the minimum, the maximum and the
  population variance (sum of squared deviations divided by n) of the scores of the
  visited cells, each cell counted once at its first occurrence, and \<open>h3_count\<close> is the
  number of distinct cells. The scorer of \<open>src/map\<close> returns the same breakdown when
  the indexer accepts every point of the route.
\<close>

theorem route_breakdown_statistics:
  assumes "indexed_cells ix p pts \<noteq> []"
  shows "safety_calculator_route_safety ix p pts tp =
           Inr (spec_breakdown
                  (map (cell_score p tp) (first_occurrences (indexed_cells ix p pts)))
                  (card (set (indexed_cells ix p pts))))
     \<and> (all_indexed ix p pts \<longrightarrow>
          calculate_route_safety ix p pts tp =
            Inr (spec_breakdown
                   (map (cell_score p tp) (first_occurrences (indexed_cells ix p pts)))
                   (card (set (indexed_cells ix p pts)))))"
  using guarded_breakdown [OF assms] propagating_breakdown [OF _ assms] by simp

text \<open>
  The sample route by day: cells NE, NE, SE, scores 66 and 75, so mean 70.5, minimum 66,
  maximum 75, variance (4.5 * 4.5 + 4.5 * 4.5) / 2 = 20.25, and two cells.
\<close>

theorem route_breakdown_statistics_witness:
  "indexed_cells quadrant_indexer sample_processor sample_route = [''NE'', ''NE'', ''SE'']
   \<and> all_indexed quadrant_indexer sample_processor sample_route
   \<and> safety_calculator_route_safety quadrant_indexer sample_processor sample_route ''day''
      = Inr \<lparr>overall_safety = 70.5, min_safety = 66, max_safety = 75,
             safety_variance = 20.25, h3_count = 2\<rparr>
   \<and> calculate_route_safety quadrant_indexer sample_processor sample_route ''day''
      = Inr \<lparr>overall_safety = 70.5, min_safety = 66, max_safety = 75,
             safety_variance = 20.25, h3_count = 2\<rparr>"
proof -
  have n: "indexed_cells quadrant_indexer sample_processor sample_route \<noteq> []"
    unfolding sample_route_cells by simp
  have f: "first_occurrences [''NE'', ''NE'', ''SE''] = [''NE'', ''SE'']"
    by (simp add: first_occurrences_def)
  have k: "card (set [''NE'', ''NE'', ''SE'']) = 2"
    by simp
  have v: "spec_breakdown [66, 75] n =
      \<lparr>overall_safety = 70.5, min_safety = 66, max_safety = 75,
             safety_variance = 20.25, h3_count = n\<rparr>" for n
    by (simp add: spec_breakdown_def power2_eq_square)
  from route_breakdown_statistics [OF n, of "''day''"]
  show ?thesis
    by (simp add: sample_route_cells f k v sample_day_scores)
qed

text \<open>
  C7. Scoring the route [a, a, b] gives the same result as scoring [a, b], for all
  points a and b (whether or not their cells differ, and also when the indexer rejects
  one of them), in both scorers: the second a finds its cell already recorded.
\<close>

theorem repeated_point_same_breakdown:
  "calculate_route_safety ix p [a, a, b] tp = calculate_route_safety ix p [a, b] tp
   \<and> safety_calculator_route_safety ix p [a, a, b] tp
       = safety_calculator_route_safety ix p [a, b] tp"
proof -
  obtain lat lon where a: "a = (lat, lon)" by (cases a)
  obtain lat' lon' where b: "b = (lat', lon')" by (cases b)
  show ?thesis
  proof (cases "latlon_to_h3 ix p lat lon")
    case (Inl e)
    then show ?thesis
      by (simp add: a b calculate_route_safety_def safety_calculator_route_safety_def)
  next
    case (Inr c)
    then show ?thesis
      by (simp add: a b calculate_route_safety_def safety_calculator_route_safety_def
          score_of_lookup [OF Inr])
  qed
qed

text \<open>Two points in distinct cells, NE and SE, on the sample grid.\<close>

theorem repeated_point_same_breakdown_witness:
  "latlon_to_h3 quadrant_indexer sample_processor 10 20 = Inr ''NE''
   \<and> latlon_to_h3 quadrant_indexer sample_processor (- 10) 20 = Inr ''SE''
   \<and> calculate_route_safety quadrant_indexer sample_processor
        [(10, 20), (10, 20), (- 10, 20)] ''day''
      = calculate_route_safety quadrant_indexer sample_processor
        [(10, 20), (- 10, 20)] ''day''
   \<and> calculate_route_safety quadrant_indexer sample_processor
        [(10, 20), (- 10, 20)] ''day''
      = Inr \<lparr>overall_safety = 70.5, min_safety = 66, max_safety = 75,
             safety_variance = 20.25, h3_count = 2\<rparr>"
proof -
  have r: "calculate_route_safety quadrant_indexer sample_processor
        [(10, 20), (- 10, 20)] ''day''
      = Inr \<lparr>overall_safety = 70.5, min_safety = 66, max_safety = 75,
             safety_variance = 20.25, h3_count = 2\<rparr>"
    by (simp add: calculate_route_safety_def sample_cells score_of_lookup sample_day_scores
        route_statistics_def np_mean_def np_var_def power2_eq_square)
  from repeated_point_same_breakdown
         [of quadrant_indexer sample_processor "(10, 20)" "(- 10, 20)" "''day''"] r
  show ?thesis
    by (simp add: sample_cells)
qed











section \<open>Failure of the indexer\<close>

text \<open>
  The repository's code checks no coordinate on the way to a cell or a score: the
  conversion is the indexer's result, and the lookup fails exactly when the conversion
  does, with the same error.
\<close>

lemma latlon_to_h3_is_indexer:
  "latlon_to_h3 ix p lat lon = ix lat lon (resolution p)"
  by (simp add: latlon_to_h3_def)

lemma lookup_fails_iff_indexer_fails:
  "get_safety_score_for_location ix p lat lon tp = Inl e
   \<longleftrightarrow> latlon_to_h3 ix p lat lon = Inl e"
  by (cases "latlon_to_h3 ix p lat lon") (simp_all add: score_of_lookup lookup_fails)

section \<open>Recommendation\<close>

text \<open>
  C4. The code departs from the claim where the safest route is also the shortest: it
  then returns position 0, whatever the position of that route. For the list
  [(score 50, 10 km), (score 90, 5 km)] the second route is both the safest and the
  shortest, its position is 1, and the recommendation names route 0.
\<close>

theorem recommendation_ignores_position_of_best:
  "py_max safety_score [route_of 50 10, route_of 90 5] = Inr (route_of 90 5)
   \<and> py_min distance_km [route_of 50 10, route_of 90 5] = Inr (route_of 90 5)
   \<and> py_index [route_of 50 10, route_of 90 5] (route_of 90 5) = Inr 1
   \<and> get_route_recommendation [route_of 50 10, route_of 90 5]
       = Inr (Recommended 0 ''Best combination of safety and efficiency'')"
  by (simp add: get_route_recommendation_def route_of_def)

lemma fold_max_first:
  assumes "is_first_max key pre i"
  shows "\<exists>j. is_first_max key (pre @ xs) j
     \<and> fold (\<lambda>y best. if key best < key y then y else best) xs (pre ! i) = (pre @ xs) ! j"
  using assms
proof (induction xs arbitrary: pre i)
  case Nil
  then show ?case by auto
next
  case (Cons y ys)
  show ?case
  proof (cases "key (pre ! i) < key y")
    case True
    have "is_first_max key (pre @ [y]) (length pre)"
      using Cons.prems True
      by (fastforce simp: is_first_max_def nth_append less_Suc_eq)
    from Cons.IH [OF this] True show ?thesis by simp
  next
    case False
    have m: "is_first_max key (pre @ [y]) i"
      using Cons.prems False
      by (auto simp: is_first_max_def nth_append less_Suc_eq)
    have "(pre @ [y]) ! i = pre ! i"
      using Cons.prems by (simp add: is_first_max_def nth_append)
    with Cons.IH [OF m] False show ?thesis by simp
  qed
qed

lemma fold_min_first:
  assumes "is_first_min key pre i"
  shows "\<exists>j. is_first_min key (pre @ xs) j
     \<and> fold (\<lambda>y best. if key y < key best then y else best) xs (pre ! i) = (pre @ xs) ! j"
  using assms
proof (induction xs arbitrary: pre i)
  case Nil
  then show ?case by auto
next
  case (Cons y ys)
  show ?case
  proof (cases "key y < key (pre ! i)")
    case True
    have "is_first_min key (pre @ [y]) (length pre)"
      using Cons.prems True
      by (fastforce simp: is_first_min_def nth_append less_Suc_eq)
    from Cons.IH [OF this] True show ?thesis by simp
  next
    case False
    have m: "is_first_min key (pre @ [y]) i"
      using Cons.prems False
      by (auto simp: is_first_min_def nth_append less_Suc_eq)
    have "(pre @ [y]) ! i = pre ! i"
      using Cons.prems by (simp add: is_first_min_def nth_append)
    with Cons.IH [OF m] False show ?thesis by simp
  qed
qed

lemma py_max_first:
  assumes "xs \<noteq> []"
  shows "\<exists>i. is_first_max key xs i \<and> py_max key xs = Inr (xs ! i)"
proof -
  from assms obtain x rest where xs: "xs = x # rest" by (cases xs) auto
  have "is_first_max key [x] 0" by (simp add: is_first_max_def)
  from fold_max_first [OF this, of rest] show ?thesis by (simp add: xs)
qed

lemma py_min_first:
  assumes "xs \<noteq> []"
  shows "\<exists>j. is_first_min key xs j \<and> py_min key xs = Inr (xs ! j)"
proof -
  from assms obtain x rest where xs: "xs = x # rest" by (cases xs) auto
  have "is_first_min key [x] 0" by (simp add: is_first_min_def)
  from fold_min_first [OF this, of rest] show ?thesis by (simp add: xs)
qed

lemma py_index_first:
  assumes "i < length xs" and "\<forall>k < i. xs ! k \<noteq> xs ! i"
  shows "py_index xs (xs ! i) = Inr i"
  using assms
proof (induction xs arbitrary: i)
  case Nil
  then show ?case by simp
next
  case (Cons y ys)
  show ?case
  proof (cases i)
    case 0
    then show ?thesis by simp
  next
    case (Suc n)
    from Cons.prems(2) Suc have ne: "y \<noteq> ys ! n" by auto
    have "\<forall>k < n. ys ! k \<noteq> ys ! n"
      using Cons.prems(2) Suc by auto
    with Cons.IH [of n] Cons.prems(1) Suc have "py_index ys (ys ! n) = Inr n" by simp
    with ne Suc show ?thesis by simp
  qed
qed

lemma py_index_first_max:
  assumes "is_first_max key xs i"
  shows "py_index xs (xs ! i) = Inr i"
proof (rule py_index_first)
  show "i < length xs" using assms by (simp add: is_first_max_def)
  show "\<forall>k < i. xs ! k \<noteq> xs ! i"
    using assms by (fastforce simp: is_first_max_def)
qed

lemma py_index_first_min:
  assumes "is_first_min key xs i"
  shows "py_index xs (xs ! i) = Inr i"
proof (rule py_index_first)
  show "i < length xs" using assms by (simp add: is_first_min_def)
  show "\<forall>k < i. xs ! k \<noteq> xs ! i"
    using assms by (fastforce simp: is_first_min_def)
qed

lemma same_route_same_index:
  assumes "is_first_max f xs i" and "is_first_min g xs j" and "xs ! i = xs ! j"
  shows "i = j"
proof (rule ccontr)
  assume "i \<noteq> j"
  then consider "i < j" | "j < i" by linarith
  then show False
  proof cases
    case 1
    with assms(2) have "g (xs ! j) < g (xs ! i)" by (simp add: is_first_min_def)
    with assms(3) show False by simp
  next
    case 2
    with assms(1) have "f (xs ! j) < f (xs ! i)" by (simp add: is_first_max_def)
    with assms(3) show False by simp
  qed
qed

text \<open>
  Apart from the position returned in the first case, the code follows the
  specification: with \<open>i\<close> the first position of the highest score and \<open>j\<close> the first
  position of the shortest distance, the three cases and reasons are as stated, and the
  position is \<open>i\<close> or \<open>j\<close> in the second and third case.
\<close>

lemma recommendation_by_cases:
  assumes "routes \<noteq> []"
  shows "\<exists>i j. is_first_max safety_score routes i \<and> is_first_min distance_km routes j
     \<and> get_route_recommendation routes =
         Inr (if i = j then Recommended 0 ''Best combination of safety and efficiency''
              else if safety_score (routes ! i) - safety_score (routes ! j) > 15
                then Recommended i ''Prioritizing safety over shorter distance''
              else Recommended j ''Good balance of safety and efficiency'')"
proof -
  from py_max_first [OF assms, of safety_score] obtain i where
    i: "is_first_max safety_score routes i" "py_max safety_score routes = Inr (routes ! i)"
    by blast
  from py_min_first [OF assms, of distance_km] obtain j where
    j: "is_first_min distance_km routes j" "py_min distance_km routes = Inr (routes ! j)"
    by blast
  have eq: "routes ! i = routes ! j \<longleftrightarrow> i = j"
    using same_route_same_index [OF i(1) j(1)] by auto
  have "get_route_recommendation routes =
         Inr (if i = j then Recommended 0 ''Best combination of safety and efficiency''
              else if safety_score (routes ! i) - safety_score (routes ! j) > 15
                then Recommended i ''Prioritizing safety over shorter distance''
              else Recommended j ''Good balance of safety and efficiency'')"
    using assms
    by (simp add: get_route_recommendation_def i(2) j(2) eq
        py_index_first_max [OF i(1)] py_index_first_min [OF j(1)])
  with i(1) j(1) show ?thesis by blast
qed

text \<open>
  On a list sorted by descending score, as \<open>get_safe_routes\<close> returns it, the first
  position of the highest score is 0, so there the position returned is that of S.
\<close>

lemma sorted_first_max_is_head:
  assumes "sorted_wrt (\<lambda>a b. key b \<le> key a) xs" and "is_first_max key xs i"
  shows "i = 0"
proof (rule ccontr)
  assume "i \<noteq> 0"
  then have "0 < i" by simp
  with assms(2) have "key (xs ! 0) < key (xs ! i)" "i < length xs"
    by (simp_all add: is_first_max_def)
  moreover from assms(1) \<open>0 < i\<close> \<open>i < length xs\<close> have "key (xs ! i) \<le> key (xs ! 0)"
    by (simp add: sorted_wrt_iff_nth_less)
  ultimately show False by simp
qed


lemma get_safe_routes_sorted:
  "sorted_wrt (\<lambda>a b. safety_score b \<le> safety_score a)
     (get_safe_routes ix p ors_api_key reply tp)"
proof -
  have "sorted (map (\<lambda>r. - safety_score r) (get_safe_routes ix p ors_api_key reply tp))"
    by (simp add: get_safe_routes_def)
  then show ?thesis
    by (simp add: sorted_wrt_map)
qed

section \<open>Upstream failure\<close>

lemma no_upstream_no_routes:
  assumes "key_missing ors_api_key \<or> reply = Inl e \<or> reply = Inr None"
  shows "get_routes ors_api_key reply = []"
  using assms by (auto simp: get_routes_def get_ors_routes_def cached_ors_routes_def)

text \<open>
  The claim fails for \<open>RouteProcessor.get_routes_from_ors\<close> of \<open>src/map\<close>: with no key, and
  with a key and a failing request, it returns three generated routes for two
  alternatives, the first one the straight line from start to end.
\<close>

theorem mock_routes_when_upstream_fails:
  "key_missing None
   \<and> length (get_routes_from_ors flat_distance None (Inl UpstreamError)
               sample_start sample_end 2) = 3
   \<and> hd (get_routes_from_ors flat_distance None (Inl UpstreamError)
           sample_start sample_end 2)
       = \<lparr>geometry_coordinates = Some [(20, 10), (20, - 10)],
          raw_distance = Some 20000, raw_duration = Some 1200\<rparr>
   \<and> length (get_routes_from_ors flat_distance (Some ''key'') (Inl UpstreamError)
               sample_start sample_end 2) = 3
   \<and> get_routes_from_ors flat_distance (Some ''key'') (Inl UpstreamError)
        sample_start sample_end 2 \<noteq> []"
  by (simp add: key_missing_def get_routes_from_ors_def generate_mock_routes_def
      flat_distance_def sample_start_def sample_end_def)

text \<open>
  C9, amended. In \<open>Map_backend\<close>, when there is no API key, when the request raises, or
  when its body has no routes, the candidate list is empty, no scored route results,
  and the response carries no route and the message "No routes available".
\<close>

theorem upstream_failure_gives_no_routes:
  assumes "key_missing ors_api_key \<or> reply = Inl e \<or> reply = Inr None"
  shows "get_routes ors_api_key reply = []
     \<and> get_safe_routes ix p ors_api_key reply tp = []
     \<and> get_route_with_safety ix p ors_api_key reply tp
         = Success [] (Message ''No routes available'')"
proof -
  have r: "get_routes ors_api_key reply = []"
    by (rule no_upstream_no_routes [OF assms])
  have s: "get_safe_routes ix p ors_api_key reply tp = []"
    by (simp add: get_safe_routes_def r)
  have "get_route_with_safety ix p ors_api_key reply tp
         = Success [] (Message ''No routes available'')"
    by (simp add: get_route_with_safety_def s get_route_recommendation_def)
  with r s show ?thesis by simp
qed

theorem upstream_failure_gives_no_routes_witness:
  "key_missing None
   \<and> get_routes None (Inl UpstreamError) = []
   \<and> get_safe_routes quadrant_indexer sample_processor (Some ''key'') (Inl UpstreamError)
        ''day'' = []
   \<and> get_route_with_safety quadrant_indexer sample_processor (Some ''key'')
        (Inl UpstreamError) ''day''
       = Success [] (Message ''No routes available'')"
proof -
  have k: "key_missing None" by (simp add: key_missing_def)
  from upstream_failure_gives_no_routes
         [of None "Inl UpstreamError" UpstreamError quadrant_indexer sample_processor "''day''"]
       upstream_failure_gives_no_routes
         [of "Some ''key''" "Inl UpstreamError" UpstreamError quadrant_indexer
             sample_processor "''day''"]
       k
  show ?thesis by simp
qed

end
